theory Spec2Isabelle
  imports Complex_Main "HOL-Library.AList"
begin

section \<open>The icon generator \<^verbatim>\<open>generate_icons.py\<close>\<close>

text \<open>
  The module has two functions, \<^verbatim>\<open>create_icon(size)\<close> and \<^verbatim>\<open>main()\<close>, and one import,
  \<^verbatim>\<open>import os\<close>. Both functions are embedded as HOL functions:
  \<^item> an exception is a value \<open>Inl e\<close> of the sum \<open>pyerror + 'a\<close>, a normal result is \<open>Inr x\<close>;
  \<^item> the module namespace is the list of names bound in it, and every read of a global
    name goes through \<open>load_global\<close>, which raises \<open>NameError\<close> for a name that is not bound;
  \<^item> the drawing library the body calls is not part of the module: its functions are the
    fields of a record \<open>pillow\<close> that the embedding takes as a parameter, each returning
    either an exception or its result;
  \<^item> the file system and the console are a record \<open>world\<close> passed through \<^verbatim>\<open>main\<close>.
\<close>

subsection \<open>Exceptions and sequencing\<close>

datatype pyerror =
    NameError string
  | FileExistsError string
  | NotADirectoryError string
  | IsADirectoryError string
  | FileNotFoundError string
  | LibraryError string

text \<open>Statement sequencing: an exception of the first statement skips the rest.\<close>

definition then_do :: "'e + 'a \<Rightarrow> ('a \<Rightarrow> 'e + 'b) \<Rightarrow> 'e + 'b" where
  "then_do m f = (case m of Inl e \<Rightarrow> Inl e | Inr x \<Rightarrow> f x)"

subsection \<open>The module namespace\<close>

text \<open>
  Executing the module binds \<^verbatim>\<open>os\<close> (line 7), \<^verbatim>\<open>create_icon\<close> (line 9) and \<^verbatim>\<open>main\<close>
  (line 102), and nothing else that the two function bodies read. A name that is not a
  module global is looked up among the builtins; the bodies use the builtins \<^verbatim>\<open>int\<close> and
  \<^verbatim>\<open>print\<close>.
\<close>

definition module_globals :: "string list" where
  "module_globals = [''os'', ''create_icon'', ''main'']"

definition builtins :: "string list" where
  "builtins = [''int'', ''print'']"

definition load_global :: "string list \<Rightarrow> string \<Rightarrow> pyerror + unit" where
  "load_global g name =
     (if name \<in> set g \<or> name \<in> set builtins then Inr () else Inl (NameError name))"

subsection \<open>The drawing library, as a parameter\<close>

type_synonym rgba = "int \<times> int \<times> int \<times> int"

text \<open>
  \<open>'i\<close> is the library's image, \<open>'f\<close> its font. A drawing call mutates the image in
  place; here it returns the image after the call. \<^verbatim>\<open>ImageDraw.Draw(img)\<close> returns the
  drawing context of \<^verbatim>\<open>img\<close>, which writes into \<^verbatim>\<open>img\<close> itself.
\<close>

record ('i, 'f) pillow =
  Image_new :: "string \<Rightarrow> int \<times> int \<Rightarrow> rgba \<Rightarrow> pyerror + 'i"
  ImageDraw_Draw :: "'i \<Rightarrow> pyerror + 'i"
  draw_rounded_rectangle :: "'i \<Rightarrow> int list \<Rightarrow> int \<Rightarrow> rgba \<Rightarrow> pyerror + 'i"
  draw_polygon :: "'i \<Rightarrow> (int \<times> int) list \<Rightarrow> rgba \<Rightarrow> pyerror + 'i"
  ImageFont_truetype :: "string \<Rightarrow> int \<Rightarrow> pyerror + 'f"
  ImageFont_load_default :: "pyerror + 'f"
  draw_textbbox :: "'i \<Rightarrow> int \<times> int \<Rightarrow> string \<Rightarrow> 'f \<Rightarrow> pyerror + (int \<times> int \<times> int \<times> int)"
  draw_text :: "'i \<Rightarrow> int \<times> int \<Rightarrow> string \<Rightarrow> rgba \<Rightarrow> 'f \<Rightarrow> pyerror + 'i"

text \<open>
  A host on which no drawing call succeeds. It instantiates the parameter in closed
  examples; in the module's own namespace no field of it is ever called.
\<close>

definition no_pillow :: "(string, unit) pillow" where
  "no_pillow =
     \<lparr>Image_new = (\<lambda>mode dims colour. Inl (LibraryError ''Image.new'')),
      ImageDraw_Draw = (\<lambda>img. Inl (LibraryError ''ImageDraw.Draw'')),
      draw_rounded_rectangle = (\<lambda>img box radius fill. Inl (LibraryError ''rounded_rectangle'')),
      draw_polygon = (\<lambda>img pts fill. Inl (LibraryError ''polygon'')),
      ImageFont_truetype = (\<lambda>path font_size. Inl (LibraryError ''truetype'')),
      ImageFont_load_default = Inl (LibraryError ''load_default''),
      draw_textbbox = (\<lambda>img xy txt font. Inl (LibraryError ''textbbox'')),
      draw_text = (\<lambda>img xy txt fill font. Inl (LibraryError ''text''))\<rparr>"

subsection \<open>Scaled geometry (lines 16 to 77)\<close>

text \<open>
  \<^verbatim>\<open>scale = size / 1024.0\<close> and every \<^verbatim>\<open>int(K * scale)\<close> are computed in double precision.
  For an integer \<open>size\<close> with \<open>\<bar>size\<bar> < 2 ^ 43\<close> the quotient and each product
  (\<open>K \<le> 600 < 2 ^ 10\<close>) are multiples of \<open>1 / 1024\<close> below \<open>2 ^ 53\<close>, hence exact doubles, so
  in that range the floating-point values are the real numbers below. \<^verbatim>\<open>int\<close> of a float
  truncates towards zero.
\<close>

definition float_exact :: "int \<Rightarrow> bool" where
  "float_exact sz = (\<bar>sz\<bar> < 2 ^ 43)"

definition scale_of :: "int \<Rightarrow> real" where
  "scale_of sz = of_int sz / 1024"

definition py_int :: "real \<Rightarrow> int" where
  "py_int x = (if 0 \<le> x then \<lfloor>x\<rfloor> else \<lceil>x\<rceil>)"

definition corner_radius :: "real \<Rightarrow> int" where
  "corner_radius scale = py_int (180 * scale)"

record bubble =
  bubble_x :: int
  bubble_y :: int
  bubble_w :: int
  bubble_h :: int
  bubble_r :: int

definition bubble1 :: "real \<Rightarrow> bubble" where
  "bubble1 scale =
     \<lparr>bubble_x = py_int (200 * scale), bubble_y = py_int (300 * scale),
      bubble_w = py_int (280 * scale), bubble_h = py_int (200 * scale),
      bubble_r = py_int (20 * scale)\<rparr>"

definition bubble2 :: "real \<Rightarrow> bubble" where
  "bubble2 scale =
     \<lparr>bubble_x = py_int (544 * scale), bubble_y = py_int (200 * scale),
      bubble_w = py_int (280 * scale), bubble_h = py_int (200 * scale),
      bubble_r = py_int (20 * scale)\<rparr>"

definition bubble3 :: "real \<Rightarrow> bubble" where
  "bubble3 scale =
     \<lparr>bubble_x = py_int (150 * scale), bubble_y = py_int (600 * scale),
      bubble_w = py_int (200 * scale), bubble_h = py_int (150 * scale),
      bubble_r = py_int (15 * scale)\<rparr>"

text \<open>The box \<^verbatim>\<open>[x, y, x + w, y + h]\<close> passed to \<^verbatim>\<open>rounded_rectangle\<close>.\<close>

definition bubble_box :: "bubble \<Rightarrow> int list" where
  "bubble_box b =
     [bubble_x b, bubble_y b, bubble_x b + bubble_w b, bubble_y b + bubble_h b]"

definition tail_points :: "real \<Rightarrow> bubble \<Rightarrow> (int \<times> int) list" where
  "tail_points scale b =
     [(bubble_x b, bubble_y b + py_int (100 * scale)),
      (bubble_x b - py_int (50 * scale), bubble_y b + py_int (150 * scale)),
      (bubble_x b, bubble_y b + py_int (200 * scale))]"

definition tail2_points :: "real \<Rightarrow> bubble \<Rightarrow> (int \<times> int) list" where
  "tail2_points scale b =
     [(bubble_x b + bubble_w b, bubble_y b + py_int (100 * scale)),
      (bubble_x b + bubble_w b + py_int (50 * scale), bubble_y b + py_int (50 * scale)),
      (bubble_x b + bubble_w b, bubble_y b)]"

definition tail3_points :: "real \<Rightarrow> bubble \<Rightarrow> (int \<times> int) list" where
  "tail3_points scale b =
     [(bubble_x b, bubble_y b + py_int (75 * scale)),
      (bubble_x b - py_int (50 * scale), bubble_y b + py_int (125 * scale)),
      (bubble_x b, bubble_y b + py_int (175 * scale))]"

text \<open>
  The linear measurements of the design drawn for a size, read off the arguments of the
  drawing calls: the background's corner radius; for each bubble its x, y, width, height
  and corner radius; for each tail the offsets of its points from the bubble's corner
  (the first and third tail hang on the left edge, the second on the right edge).
\<close>

definition bubble_dims :: "bubble \<Rightarrow> int list" where
  "bubble_dims b = [bubble_x b, bubble_y b, bubble_w b, bubble_h b, bubble_r b]"

definition left_tail_offsets :: "bubble \<Rightarrow> (int \<times> int) list \<Rightarrow> int list" where
  "left_tail_offsets b pts =
     [snd (pts ! 0) - bubble_y b, bubble_x b - fst (pts ! 1), snd (pts ! 1) - bubble_y b,
      snd (pts ! 2) - bubble_y b]"

definition right_tail_offsets :: "bubble \<Rightarrow> (int \<times> int) list \<Rightarrow> int list" where
  "right_tail_offsets b pts =
     [snd (pts ! 0) - bubble_y b, fst (pts ! 1) - (bubble_x b + bubble_w b),
      snd (pts ! 1) - bubble_y b]"

definition measurements :: "int \<Rightarrow> int list" where
  "measurements sz =
     (let scale = scale_of sz;
          b1 = bubble1 scale; b2 = bubble2 scale; b3 = bubble3 scale
      in corner_radius scale #
         bubble_dims b1 @ left_tail_offsets b1 (tail_points scale b1) @
         bubble_dims b2 @ right_tail_offsets b2 (tail2_points scale b2) @
         bubble_dims b3 @ left_tail_offsets b3 (tail3_points scale b3))"

subsection \<open>Font selection (lines 80 to 88)\<close>

text \<open>
  Both \<^verbatim>\<open>except:\<close> clauses are bare, so they catch every exception of their \<^verbatim>\<open>try\<close> body,
  including the \<open>NameError\<close> of reading \<^verbatim>\<open>ImageFont\<close>. The last call,
  \<^verbatim>\<open>ImageFont.load_default()\<close>, is outside every \<^verbatim>\<open>try\<close>.
\<close>

definition select_font :: "string list \<Rightarrow> ('i, 'f) pillow \<Rightarrow> real \<Rightarrow> pyerror + 'f" where
  "select_font g lib scale =
     (let font_size = py_int (180 * scale) in
      case then_do (load_global g ''ImageFont'')
             (\<lambda>_. ImageFont_truetype lib ''/System/Library/Fonts/Arial.ttf'' font_size) of
        Inr font \<Rightarrow> Inr font
      | Inl _ \<Rightarrow>
          (case then_do (load_global g ''ImageFont'')
                  (\<lambda>_. ImageFont_truetype lib ''/System/Library/Fonts/Helvetica.ttc'' font_size) of
             Inr font \<Rightarrow> Inr font
           | Inl _ \<Rightarrow>
               then_do (load_global g ''ImageFont'') (\<lambda>_. ImageFont_load_default lib)))"

subsection \<open>Label position (lines 91 to 96)\<close>

text \<open>\<^verbatim>\<open>//\<close> is floor division, which is \<open>div\<close> on \<open>int\<close>.\<close>

definition text_position :: "int \<Rightarrow> real \<Rightarrow> int \<times> int \<times> int \<times> int \<Rightarrow> int \<times> int" where
  "text_position sz scale text_bbox =
     (case text_bbox of (x0, y0, x1, y1) \<Rightarrow>
        let text_width = x1 - x0;
            text_height = y1 - y0;
            text_x = (sz - text_width) div 2;
            text_y = (sz - text_height) div 2 + py_int (50 * scale)
        in (text_x, text_y))"

subsection \<open>\<^verbatim>\<open>create_icon\<close> (lines 9 to 100)\<close>

definition create_icon :: "string list \<Rightarrow> ('i, 'f) pillow \<Rightarrow> int \<Rightarrow> pyerror + 'i" where
  "create_icon g lib sz =
     then_do (load_global g ''Image'') (\<lambda>_.
     then_do (Image_new lib ''RGBA'' (sz, sz) (0, 0, 0, 255)) (\<lambda>img.
     then_do (load_global g ''ImageDraw'') (\<lambda>_.
     then_do (ImageDraw_Draw lib img) (\<lambda>draw.
     let scale = scale_of sz in
     then_do (draw_rounded_rectangle lib draw [0, 0, sz, sz] (corner_radius scale)
                (0, 0, 0, 255)) (\<lambda>draw.
     let green = (0, 200, 81, 255);
         b1 = bubble1 scale in
     then_do (draw_rounded_rectangle lib draw (bubble_box b1) (bubble_r b1) green) (\<lambda>draw.
     then_do (draw_polygon lib draw (tail_points scale b1) green) (\<lambda>draw.
     let b2 = bubble2 scale in
     then_do (draw_rounded_rectangle lib draw (bubble_box b2) (bubble_r b2) green) (\<lambda>draw.
     then_do (draw_polygon lib draw (tail2_points scale b2) green) (\<lambda>draw.
     let b3 = bubble3 scale in
     then_do (draw_rounded_rectangle lib draw (bubble_box b3) (bubble_r b3) green) (\<lambda>draw.
     then_do (draw_polygon lib draw (tail3_points scale b3) green) (\<lambda>draw.
     then_do (select_font g lib scale) (\<lambda>font.
     then_do (draw_textbbox lib draw (0, 0) ''KST'' font) (\<lambda>text_bbox.
     then_do (draw_text lib draw (text_position sz scale text_bbox) ''KST''
                (255, 255, 255, 255) font) (\<lambda>draw.
     Inr draw))))))))))))))"

subsection \<open>The file system and the console\<close>

text \<open>
  \<open>dirs\<close> are the directories that exist, \<open>files\<close> the regular files with their content
  (what \<^verbatim>\<open>img.save(path, "PNG")\<close> stores is determined by the image, so the content kept is
  the image), \<open>stdout\<close> the lines printed so far. Paths are relative to the working
  directory, which exists. Permissions and disk space are not part of the state.
\<close>

record 'i world =
  dirs :: "string list"
  files :: "(string \<times> 'i) list"
  stdout :: "string list"

definition is_file :: "'i world \<Rightarrow> string \<Rightarrow> bool" where
  "is_file w p = (p \<in> fst ` set (files w))"

text \<open>\<open>leading_dirs [] ''a/b/c''\<close> is \<open>[''a'', ''a/b'', ''a/b/c'']\<close>.\<close>

fun leading_dirs :: "string \<Rightarrow> string \<Rightarrow> string list" where
  "leading_dirs seen [] = [seen]"
| "leading_dirs seen (c # cs) =
     (if c = CHR ''/'' then seen # leading_dirs (seen @ [c]) cs
      else leading_dirs (seen @ [c]) cs)"

text \<open>
  \<^verbatim>\<open>os.makedirs(name, exist_ok=True)\<close>: every missing directory on the way is created, an
  existing one is kept, and a regular file in the way raises.
\<close>

definition makedirs :: "string \<Rightarrow> 'i world \<Rightarrow> pyerror + 'i world" where
  "makedirs name w =
     (case find (is_file w) (leading_dirs [] name) of
        Some p \<Rightarrow> Inl (if p = name then FileExistsError name else NotADirectoryError name)
      | None \<Rightarrow>
          Inr (w\<lparr>dirs := dirs w @ filter (\<lambda>p. p \<notin> set (dirs w)) (leading_dirs [] name)\<rparr>))"

text \<open>\<^verbatim>\<open>os.path.join(a, b)\<close> on POSIX.\<close>

definition path_join :: "string \<Rightarrow> string \<Rightarrow> string" where
  "path_join a b =
     (if b \<noteq> [] \<and> hd b = CHR ''/'' then b
      else if a = [] \<or> last a = CHR ''/'' then a @ b
      else a @ ''/'' @ b)"

definition dirname :: "string \<Rightarrow> string" where
  "dirname p = rev (drop 1 (dropWhile (\<lambda>c. c \<noteq> CHR ''/'') (rev p)))"

text \<open>\<^verbatim>\<open>img.save(path, "PNG")\<close> creates the file or replaces its content.\<close>

definition save :: "'i \<Rightarrow> string \<Rightarrow> 'i world \<Rightarrow> pyerror + 'i world" where
  "save img path w =
     (if path \<in> set (dirs w) then Inl (IsADirectoryError path)
      else if is_file w (dirname path) then Inl (NotADirectoryError path)
      else if dirname path = [] \<or> dirname path \<in> set (dirs w)
        then Inr (w\<lparr>files := AList.update path img (files w)\<rparr>)
      else Inl (FileNotFoundError path))"

definition print :: "string \<Rightarrow> 'i world \<Rightarrow> 'i world" where
  "print line w = w\<lparr>stdout := stdout w @ [line]\<rparr>"

text \<open>\<^verbatim>\<open>str\<close> of an integer, as the f-strings format it.\<close>

fun digits_of :: "nat \<Rightarrow> string" where
  "digits_of n =
     (if n < 10 then [''0123456789'' ! n]
      else digits_of (n div 10) @ [''0123456789'' ! (n mod 10)])"

declare digits_of.simps [simp del]

definition str_int :: "int \<Rightarrow> string" where
  "str_int i = (if i < 0 then CHR ''-'' # digits_of (nat (- i)) else digits_of (nat i))"

subsection \<open>\<^verbatim>\<open>main\<close> (lines 102 to 123)\<close>

definition sizes :: "(int \<times> string) list" where
  "sizes =
     [(40, ''icon-20@2x.png''),
      (60, ''icon-20@3x.png''),
      (58, ''icon-29@2x.png''),
      (87, ''icon-29@3x.png''),
      (80, ''icon-40@2x.png''),
      (120, ''icon-40@3x.png''),
      (120, ''icon-60@2x.png''),
      (180, ''icon-60@3x.png''),
      (1024, ''icon-1024.png'')]"

definition output_dir :: string where
  "output_dir = ''Assets.xcassets/AppIcon.appiconset''"

text \<open>
  The \<^verbatim>\<open>for\<close> loop of lines 119 to 123 over a table of entries. There is no \<^verbatim>\<open>try\<close> in it:
  an exception of one iteration ends the loop with that exception, in the world reached
  so far.
\<close>

fun main_loop ::
  "string list \<Rightarrow> ('i, 'f) pillow \<Rightarrow> (int \<times> string) list \<Rightarrow> 'i world \<Rightarrow> (pyerror + unit) \<times> 'i world"
where
  "main_loop g lib [] w = (Inr (), w)"
| "main_loop g lib ((sz, filename) # rest) w =
     (let w1 = print (''Generating '' @ filename @ '' ('' @ str_int sz @ ''x'' @ str_int sz @ '')...'') w in
      case then_do (load_global g ''create_icon'') (\<lambda>_. create_icon g lib sz) of
        Inl e \<Rightarrow> (Inl e, w1)
      | Inr img \<Rightarrow>
          (case then_do (load_global g ''os'')
                  (\<lambda>_. save img (path_join output_dir filename) w1) of
             Inl e \<Rightarrow> (Inl e, w1)
           | Inr w2 \<Rightarrow> main_loop g lib rest (print (''Saved '' @ filename) w2)))"

definition main :: "string list \<Rightarrow> ('i, 'f) pillow \<Rightarrow> 'i world \<Rightarrow> (pyerror + unit) \<times> 'i world" where
  "main g lib w =
     (case then_do (load_global g ''os'') (\<lambda>_. makedirs output_dir w) of
        Inl e \<Rightarrow> (Inl e, w)
      | Inr w1 \<Rightarrow> main_loop g lib sizes w1)"

section \<open>Basic facts\<close>

lemma then_do_Inl [simp]: "then_do (Inl e) f = Inl e"
  by (simp add: then_do_def)

lemma then_do_Inr [simp]: "then_do (Inr x) f = f x"
  by (simp add: then_do_def)

lemma load_global_module_os [simp]: "load_global module_globals ''os'' = Inr ()"
  by (simp add: load_global_def module_globals_def)

lemma load_global_module_create_icon [simp]:
  "load_global module_globals ''create_icon'' = Inr ()"
  by (simp add: load_global_def module_globals_def)

lemma load_global_module_Image [simp]:
  "load_global module_globals ''Image'' = Inl (NameError ''Image'')"
  by (simp add: load_global_def module_globals_def builtins_def)

lemma load_global_module_ImageFont [simp]:
  "load_global module_globals ''ImageFont'' = Inl (NameError ''ImageFont'')"
  by (simp add: load_global_def module_globals_def builtins_def)

text \<open>In the module's namespace the first statement of \<^verbatim>\<open>create_icon\<close> raises.\<close>

lemma create_icon_module: "create_icon module_globals lib sz = Inl (NameError ''Image'')"
  by (simp add: create_icon_def)

lemma main_loop_module_Cons:
  "main_loop module_globals lib ((sz, filename) # rest) w =
     (Inl (NameError ''Image''),
      print (''Generating '' @ filename @ '' ('' @ str_int sz @ ''x'' @ str_int sz @ '')...'') w)"
  by (simp add: create_icon_module)

declare main_loop.simps(2) [simp del]

lemma makedirs_files: "makedirs name w = Inr w1 \<Longrightarrow> files w1 = files w"
  by (auto simp: makedirs_def split: option.splits)

lemma print_files [simp]: "files (print line w) = files w"
  by (simp add: print_def)

lemma main_module_files: "files (snd (main module_globals lib w)) = files w"
  by (cases "makedirs output_dir w")
     (simp_all add: main_def sizes_def main_loop_module_Cons makedirs_files)

lemma main_module_fails: "fst (main module_globals lib w) \<noteq> Inr ()"
  by (cases "makedirs output_dir w")
     (simp_all add: main_def sizes_def main_loop_module_Cons)

lemma str_int_40: "str_int 40 = ''40''"
  by (simp add: str_int_def digits_of.simps)


lemma leading_dirs_output_dir:
  "leading_dirs [] output_dir = [''Assets.xcassets'', ''Assets.xcassets/AppIcon.appiconset'']"
  by (simp add: output_dir_def)

lemma makedirs_empty:
  "makedirs output_dir \<lparr>dirs = [], files = [], stdout = out\<rparr> =
     Inr \<lparr>dirs = [''Assets.xcassets'', ''Assets.xcassets/AppIcon.appiconset''],
          files = [], stdout = out\<rparr>"
  by (simp add: makedirs_def leading_dirs_output_dir is_file_def)

lemma makedirs_again:
  "makedirs output_dir
     \<lparr>dirs = [''Assets.xcassets'', ''Assets.xcassets/AppIcon.appiconset''],
      files = [], stdout = out\<rparr> =
   Inr \<lparr>dirs = [''Assets.xcassets'', ''Assets.xcassets/AppIcon.appiconset''],
        files = [], stdout = out\<rparr>"
  by (simp add: makedirs_def leading_dirs_output_dir is_file_def)

lemma makedirs_stale:
  "makedirs output_dir
     \<lparr>dirs = [''Assets.xcassets'', ''Assets.xcassets/AppIcon.appiconset''],
      files = [(''Assets.xcassets/AppIcon.appiconset/icon-40@3x.png'', a),
               (''Assets.xcassets/AppIcon.appiconset/icon-60@2x.png'', b)],
      stdout = out\<rparr> =
   Inr \<lparr>dirs = [''Assets.xcassets'', ''Assets.xcassets/AppIcon.appiconset''],
        files = [(''Assets.xcassets/AppIcon.appiconset/icon-40@3x.png'', a),
                 (''Assets.xcassets/AppIcon.appiconset/icon-60@2x.png'', b)],
        stdout = out\<rparr>"
  by (simp add: makedirs_def leading_dirs_output_dir is_file_def)

subsection \<open>Arithmetic of the scaled measurements\<close>

lemma py_int_nonneg: "0 \<le> x \<Longrightarrow> py_int x = \<lfloor>x\<rfloor>"
  by (simp add: py_int_def)

lemma py_int_scale:
  assumes "0 \<le> sz"
  shows "py_int (numeral k * scale_of sz) = (numeral k * sz) div 1024"
proof -
  have "numeral k * scale_of sz = of_int (numeral k * sz) / of_int 1024"
    by (simp add: scale_of_def)
  moreover have "0 \<le> numeral k * scale_of sz"
    using assms by (simp add: scale_of_def)
  ultimately show ?thesis
    by (simp only: py_int_nonneg floor_divide_of_int_eq)
qed

lemma py_int_scale_bounds:
  assumes "0 \<le> sz"
  shows "of_int (py_int (numeral k * scale_of sz)) \<le> numeral k * scale_of sz"
    and "numeral k * scale_of sz - 1 < of_int (py_int (numeral k * scale_of sz))"
proof -
  have "0 \<le> numeral k * scale_of sz"
    using assms by (simp add: scale_of_def)
  then have "py_int (numeral k * scale_of sz) = \<lfloor>numeral k * scale_of sz\<rfloor>"
    by (rule py_int_nonneg)
  then show "of_int (py_int (numeral k * scale_of sz)) \<le> numeral k * scale_of sz"
    and "numeral k * scale_of sz - 1 < of_int (py_int (numeral k * scale_of sz))"
    by linarith+
qed

lemma half_bounds:
  fixes n :: int
  shows "real_of_int (n div 2) \<le> of_int n / 2"
    and "of_int n / 2 - 1 / 2 \<le> real_of_int (n div 2)"
proof -
  have "n = 2 * (n div 2) + n mod 2" by simp
  moreover have "0 \<le> n mod 2" "n mod 2 \<le> 1" by simp_all
  ultimately have "2 * (n div 2) \<le> n" "n - 1 \<le> 2 * (n div 2)" by linarith+
  then have "2 * real_of_int (n div 2) \<le> of_int n" "of_int n - 1 \<le> 2 * real_of_int (n div 2)"
    by linarith+
  then show "real_of_int (n div 2) \<le> of_int n / 2"
    and "of_int n / 2 - 1 / 2 \<le> real_of_int (n div 2)"
    by linarith+
qed

text \<open>
  Two truncated quotients \<open>k * s div 1024\<close>, each scaled by the other size, differ by less
  than the larger size: each remainder is at most 1023 and is multiplied by one size.
\<close>

lemma div_scaling:
  fixes k s1 s2 :: int
  assumes "0 < s1" "0 < s2" "0 \<le> k"
  shows "\<bar>(k * s2) div 1024 * s1 - (k * s1) div 1024 * s2\<bar> < max s1 s2"
proof -
  define a where "a = (k * s2) div 1024"
  define b where "b = (k * s1) div 1024"
  define r2 where "r2 = (k * s2) mod 1024"
  define r1 where "r1 = (k * s1) mod 1024"
  define d where "d = a * s1 - b * s2"
  define M where "M = max s1 s2"
  have r1: "0 \<le> r1" "r1 \<le> 1023" and r2: "0 \<le> r2" "r2 \<le> 1023"
    unfolding r1_def r2_def by simp_all
  have a: "1024 * a = k * s2 - r2" unfolding a_def r2_def
    by (simp add: minus_mod_eq_mult_div [symmetric])
  have b: "1024 * b = k * s1 - r1" unfolding b_def r1_def
    by (simp add: minus_mod_eq_mult_div [symmetric])
  have "1024 * d = (1024 * a) * s1 - (1024 * b) * s2"
    unfolding d_def by (simp add: algebra_simps)
  also have "\<dots> = r1 * s2 - r2 * s1"
    unfolding a b by (simp add: algebra_simps)
  finally have eq: "1024 * d = r1 * s2 - r2 * s1" .
  have M: "0 < M" "s1 \<le> M" "s2 \<le> M"
    using assms unfolding M_def by simp_all
  have u1: "r1 * s2 \<le> 1023 * M"
    using r1 assms M by (intro mult_mono) auto
  have u2: "r2 * s1 \<le> 1023 * M"
    using r2 assms M by (intro mult_mono) auto
  have l1: "0 \<le> r1 * s2" using r1 assms by simp
  have l2: "0 \<le> r2 * s1" using r2 assms by simp
  have "\<bar>d\<bar> < M"
    using u1 u2 l1 l2 eq M(1) by linarith
  then show ?thesis unfolding d_def a_def b_def M_def .
qed

text \<open>
  The measurements of a positive size are the truncated quotients of the reference
  constants, in the order of the source.
\<close>

lemma measurements_eq:
  "0 < sz \<Longrightarrow> measurements sz = map (\<lambda>k. (k * sz) div 1024)
     [180, 200, 300, 280, 200, 20, 100, 50, 150, 200,
      544, 200, 280, 200, 20, 100, 50, 50,
      150, 600, 200, 150, 15, 75, 50, 125, 175]"
  by (simp add: measurements_def Let_def corner_radius_def bubble1_def bubble2_def bubble3_def
      bubble_dims_def left_tail_offsets_def right_tail_offsets_def
      tail_points_def tail2_points_def tail3_points_def py_int_scale)

text \<open>
  With \<^verbatim>\<open>ImageFont\<close> bound and a default font that loads, the \<^verbatim>\<open>try\<close> chain of lines 80 to
  88 always ends with a font: this is what the chain is written to do.
\<close>

lemma select_font_bound:
  assumes "''ImageFont'' \<in> set g" and "ImageFont_load_default lib = Inr d"
  shows "\<exists>font. select_font g lib scale = Inr font"
  using assms by (simp add: select_font_def load_global_def Let_def split: sum.split)

subsection \<open>The batch where rendering succeeds\<close>

text \<open>
  What the loop is written to do shows in a namespace that binds \<^verbatim>\<open>create_icon\<close> and \<^verbatim>\<open>os\<close>
  and in which every render returns an image \<open>img sz\<close> (which needs \<^verbatim>\<open>Image\<close>, \<^verbatim>\<open>ImageDraw\<close>
  and \<^verbatim>\<open>ImageFont\<close> bound, so it is not the module's own namespace): a run from an empty
  working directory stores the nine files of the table, the two entries of size 120 with
  the same content, and a run over the nine files replaces their contents and adds none.
\<close>

lemma main_loop_bound_Cons:
  assumes "''create_icon'' \<in> set g" "''os'' \<in> set g" "create_icon g lib sz = Inr img"
  shows "main_loop g lib ((sz, filename) # rest) w =
     (let w1 = print (''Generating '' @ filename @ '' ('' @ str_int sz @ ''x'' @ str_int sz @ '')...'') w in
      case save img (path_join output_dir filename) w1 of
        Inl e \<Rightarrow> (Inl e, w1)
      | Inr w2 \<Rightarrow> main_loop g lib rest (print (''Saved '' @ filename) w2))"
  using assms by (simp add: main_loop.simps(2) load_global_def)

lemma main_bound_empty:
  assumes g: "''create_icon'' \<in> set g" "''os'' \<in> set g"
    and r: "\<And>sz. create_icon g lib sz = Inr (img sz)"
  shows "files (snd (main g lib \<lparr>dirs = [], files = [], stdout = []\<rparr>)) =
     [(''Assets.xcassets/AppIcon.appiconset/icon-20@2x.png'', img 40),
      (''Assets.xcassets/AppIcon.appiconset/icon-20@3x.png'', img 60),
      (''Assets.xcassets/AppIcon.appiconset/icon-29@2x.png'', img 58),
      (''Assets.xcassets/AppIcon.appiconset/icon-29@3x.png'', img 87),
      (''Assets.xcassets/AppIcon.appiconset/icon-40@2x.png'', img 80),
      (''Assets.xcassets/AppIcon.appiconset/icon-40@3x.png'', img 120),
      (''Assets.xcassets/AppIcon.appiconset/icon-60@2x.png'', img 120),
      (''Assets.xcassets/AppIcon.appiconset/icon-60@3x.png'', img 180),
      (''Assets.xcassets/AppIcon.appiconset/icon-1024.png'', img 1024)]"
proof -
  have "main g lib \<lparr>dirs = [], files = [], stdout = []\<rparr> =
      main_loop g lib sizes
        \<lparr>dirs = [''Assets.xcassets'', ''Assets.xcassets/AppIcon.appiconset''],
         files = [], stdout = []\<rparr>"
    using g by (simp add: main_def load_global_def makedirs_empty)
  then show ?thesis
    by (simp add: sizes_def main_loop_bound_Cons [OF g r]
      Let_def print_def save_def is_file_def dirname_def path_join_def output_dir_def)
qed

lemma main_bound_again:
  assumes g: "''create_icon'' \<in> set g" "''os'' \<in> set g"
    and r: "\<And>sz. create_icon g lib sz = Inr (img sz)"
  shows "files (snd (main g lib
     \<lparr>dirs = [''Assets.xcassets'', ''Assets.xcassets/AppIcon.appiconset''],
      files =
        [(''Assets.xcassets/AppIcon.appiconset/icon-20@2x.png'', old1),
         (''Assets.xcassets/AppIcon.appiconset/icon-20@3x.png'', old2),
         (''Assets.xcassets/AppIcon.appiconset/icon-29@2x.png'', old3),
         (''Assets.xcassets/AppIcon.appiconset/icon-29@3x.png'', old4),
         (''Assets.xcassets/AppIcon.appiconset/icon-40@2x.png'', old5),
         (''Assets.xcassets/AppIcon.appiconset/icon-40@3x.png'', old6),
         (''Assets.xcassets/AppIcon.appiconset/icon-60@2x.png'', old7),
         (''Assets.xcassets/AppIcon.appiconset/icon-60@3x.png'', old8),
         (''Assets.xcassets/AppIcon.appiconset/icon-1024.png'', old9)],
      stdout = out\<rparr>)) =
     [(''Assets.xcassets/AppIcon.appiconset/icon-20@2x.png'', img 40),
      (''Assets.xcassets/AppIcon.appiconset/icon-20@3x.png'', img 60),
      (''Assets.xcassets/AppIcon.appiconset/icon-29@2x.png'', img 58),
      (''Assets.xcassets/AppIcon.appiconset/icon-29@3x.png'', img 87),
      (''Assets.xcassets/AppIcon.appiconset/icon-40@2x.png'', img 80),
      (''Assets.xcassets/AppIcon.appiconset/icon-40@3x.png'', img 120),
      (''Assets.xcassets/AppIcon.appiconset/icon-60@2x.png'', img 120),
      (''Assets.xcassets/AppIcon.appiconset/icon-60@3x.png'', img 180),
      (''Assets.xcassets/AppIcon.appiconset/icon-1024.png'', img 1024)]"
proof -
  let ?w = "\<lparr>dirs = [''Assets.xcassets'', ''Assets.xcassets/AppIcon.appiconset''],
      files =
        [(''Assets.xcassets/AppIcon.appiconset/icon-20@2x.png'', old1),
         (''Assets.xcassets/AppIcon.appiconset/icon-20@3x.png'', old2),
         (''Assets.xcassets/AppIcon.appiconset/icon-29@2x.png'', old3),
         (''Assets.xcassets/AppIcon.appiconset/icon-29@3x.png'', old4),
         (''Assets.xcassets/AppIcon.appiconset/icon-40@2x.png'', old5),
         (''Assets.xcassets/AppIcon.appiconset/icon-40@3x.png'', old6),
         (''Assets.xcassets/AppIcon.appiconset/icon-60@2x.png'', old7),
         (''Assets.xcassets/AppIcon.appiconset/icon-60@3x.png'', old8),
         (''Assets.xcassets/AppIcon.appiconset/icon-1024.png'', old9)],
      stdout = out\<rparr>"
  have "makedirs output_dir ?w = Inr ?w"
    by (simp add: makedirs_def leading_dirs_output_dir is_file_def)
  then have "main g lib ?w = main_loop g lib sizes ?w"
    using g by (simp add: main_def load_global_def)
  then show ?thesis
    by (simp add: sizes_def main_loop_bound_Cons [OF g r]
      Let_def print_def save_def is_file_def dirname_def path_join_def output_dir_def)
qed

section \<open>The claims\<close>

subsection \<open>The renderer in the module's namespace\<close>

text \<open>
  Claim C1. For every pixel size, a call of \<^verbatim>\<open>create_icon\<close> raises \<open>NameError\<close>, because
  \<^verbatim>\<open>Image\<close> is read in its first statement and the module binds only \<^verbatim>\<open>os\<close> and its two
  functions; therefore \<^verbatim>\<open>main\<close> never returns normally and writes no file: the regular
  files after a run are those before it, whatever the drawing library and the file
  system are.
\<close>

theorem create_icon_raises_NameError:
  "create_icon module_globals lib sz = Inl (NameError ''Image'') \<and>
   fst (main module_globals lib w) \<noteq> Inr () \<and>
   files (snd (main module_globals lib w)) = files w"
  by (simp add: create_icon_module main_module_files main_module_fails)

text \<open>
  Claim C2 says that \<^verbatim>\<open>create_icon\<close> returns a square, fully opaque image of the requested
  size for every positive size. At size 1024 the module's \<^verbatim>\<open>create_icon\<close> returns no image:
  it raises \<open>NameError\<close> before \<^verbatim>\<open>Image.new\<close> is called.
\<close>

theorem create_icon_1024_no_image:
  "create_icon module_globals lib 1024 = Inl (NameError ''Image'') \<and>
   create_icon module_globals lib 1024 \<noteq> Inr img"
  by (simp add: create_icon_module)

text \<open>
  Claim C3 says that a run of \<^verbatim>\<open>main\<close> renders every entry of the nine-entry table in
  order and stores each image under the output directory. From an empty working
  directory the run creates the two directories, announces the first entry, and ends
  with the \<open>NameError\<close> of the first render: no file is stored and the other eight
  entries are never reached. (The table \<open>sizes\<close> and \<open>output_dir\<close> are as the claim lists
  them.)
\<close>

theorem main_empty_world:
  "main module_globals lib \<lparr>dirs = [], files = [], stdout = []\<rparr> =
     (Inl (NameError ''Image''),
      \<lparr>dirs = [''Assets.xcassets'', ''Assets.xcassets/AppIcon.appiconset''], files = [],
       stdout = [''Generating icon-20@2x.png (40x40)...'']\<rparr>)"
  by (simp add: main_def makedirs_empty sizes_def main_loop_module_Cons print_def str_int_40)

text \<open>
  Claim C4 says that font selection falls through the named fonts to a default font that
  is always available, so that it never fails. In the module's namespace \<^verbatim>\<open>ImageFont\<close> is
  not bound: both \<^verbatim>\<open>try\<close> bodies raise \<open>NameError\<close>, which the bare \<^verbatim>\<open>except\<close> clauses
  catch, and the final \<^verbatim>\<open>ImageFont.load_default()\<close> raises it uncaught, whatever fonts the
  host has and whatever the scale is.
\<close>

theorem select_font_module:
  "select_font module_globals lib scale = Inl (NameError ''ImageFont'')"
  by (simp add: select_font_def)


subsection \<open>The label position\<close>

text \<open>
  Claim C5 says that the label is centred horizontally within one pixel and lies below
  the vertical centre by \<open>50 * (size / 1024)\<close> pixels. Counterexample: at size 40 with a
  measured box \<open>(0, 2, 14, 7)\<close> (width 14, height 5) the position is \<open>(13, 18)\<close>; the
  vertically centred position is \<open>35 / 2\<close>, so the offset is \<open>1 / 2\<close> pixel, more than
  one pixel short of \<open>50 * (40 / 1024) = 1.953125\<close>.
\<close>

theorem label_offset_counterexample:
  "text_position 40 (scale_of 40) (0, 2, 14, 7) = (13, 18) \<and>
   real_of_int 18 - real_of_int (40 - (7 - 2)) / 2 = 1 / 2 \<and>
   50 * (40 / 1024) - (1 / 2 :: real) > 1"
  by (simp add: text_position_def py_int_scale)

text \<open>
  Claim C5, amended. For a positive size (in the range where the floating-point
  arithmetic is exact) and a measured box \<open>(x0, y0, x1, y1)\<close>, the position computed for
  the label is \<open>(text_x, text_y)\<close> with: a box of the measured width placed at \<open>text_x\<close> is
  centred within one pixel (\<open>0 \<le> size - width - 2 * text_x \<le> 1\<close>); and \<open>text_y\<close> lies
  below the vertically centred position \<open>(size - height) / 2\<close> by at most
  \<open>50 * (size / 1024)\<close> and by more than \<open>50 * (size / 1024) - 3 / 2\<close> pixels, the floor
  division and the truncation each rounding down.
\<close>

theorem label_position:
  assumes "0 < sz" "float_exact sz"
  shows "case text_position sz (scale_of sz) (x0, y0, x1, y1) of (text_x, text_y) \<Rightarrow>
           0 \<le> sz - (x1 - x0) - 2 * text_x \<and> sz - (x1 - x0) - 2 * text_x \<le> 1 \<and>
           real_of_int text_y - real_of_int (sz - (y1 - y0)) / 2 \<le> 50 * scale_of sz \<and>
           50 * scale_of sz - 3 / 2 < real_of_int text_y - real_of_int (sz - (y1 - y0)) / 2"
proof -
  define text_x where "text_x = (sz - (x1 - x0)) div 2"
  define half where "half = (sz - (y1 - y0)) div 2"
  define off where "off = py_int (50 * scale_of sz)"
  have pos: "text_position sz (scale_of sz) (x0, y0, x1, y1) = (text_x, half + off)"
    by (simp add: text_position_def Let_def text_x_def half_def off_def)
  have sz: "0 \<le> sz" using assms(1) by simp
  have off: "real_of_int off \<le> 50 * scale_of sz" "50 * scale_of sz - 1 < real_of_int off"
    unfolding off_def by (rule py_int_scale_bounds [OF sz])+
  have half: "real_of_int half \<le> real_of_int (sz - (y1 - y0)) / 2"
    "real_of_int (sz - (y1 - y0)) / 2 - 1 / 2 \<le> real_of_int half"
    unfolding half_def by (rule half_bounds)+
  have x: "0 \<le> sz - (x1 - x0) - 2 * text_x" "sz - (x1 - x0) - 2 * text_x \<le> 1"
    unfolding text_x_def by presburger+
  have y: "real_of_int (half + off) - real_of_int (sz - (y1 - y0)) / 2 \<le> 50 * scale_of sz"
    "50 * scale_of sz - 3 / 2 < real_of_int (half + off) - real_of_int (sz - (y1 - y0)) / 2"
    using off half unfolding of_int_add by linarith+
  show ?thesis
    unfolding pos using x y by simp
qed

theorem label_position_witness:
  "0 < (40::int) \<and> float_exact 40 \<and>
   (case text_position 40 (scale_of 40) (0, 2, 14, 7) of (text_x, text_y) \<Rightarrow>
      0 \<le> 40 - (14 - 0) - 2 * text_x \<and> 40 - (14 - 0) - 2 * text_x \<le> 1 \<and>
      real_of_int text_y - real_of_int (40 - (7 - 2)) / 2 \<le> 50 * scale_of 40 \<and>
      50 * scale_of 40 - 3 / 2 < real_of_int text_y - real_of_int (40 - (7 - 2)) / 2)"
  using label_position [where sz = 40 and ?x0.0 = 0 and ?y0.0 = 2 and ?x1.0 = 14 and ?y1.0 = 7]
  by (simp add: float_exact_def)

subsection \<open>Scaling of the design\<close>

text \<open>
  Claim C7 says that every linear measurement at size \<open>s2\<close> is the measurement at size
  \<open>s1\<close> times \<open>s2 / s1\<close>, up to integer rounding. Counterexample: the first bubble is 10
  pixels wide at size 40 and 280 pixels wide at size 1024, while \<open>10 * (1024 / 40) = 256\<close>,
  24 pixels less.
\<close>

theorem scaling_counterexample:
  "bubble_w (bubble1 (scale_of 40)) = 10 \<and> bubble_w (bubble1 (scale_of 1024)) = 280 \<and>
   \<bar>280 - 10 * (1024 / 40)\<bar> = (24::real)"
  by (simp add: bubble1_def py_int_scale)

text \<open>
  Claim C7, amended. Every measurement is its reference constant times \<open>size / 1024\<close>,
  truncated; so for positive sizes \<open>s1\<close> and \<open>s2\<close> (in the range where the floating-point
  arithmetic is exact) each measurement \<open>m2\<close> at \<open>s2\<close> differs from the corresponding
  measurement \<open>m1\<close> at \<open>s1\<close> times \<open>s2 / s1\<close> by less than \<open>max 1 (s2 / s1)\<close> pixels:
  \<open>\<bar>m2 * s1 - m1 * s2\<bar> < max s1 s2\<close>. The tolerance grows with the ratio of the sizes.
\<close>

theorem scaling_relation:
  assumes "0 < s1" "0 < s2" "float_exact s1" "float_exact s2"
  shows "list_all2 (\<lambda>m1 m2. \<bar>m2 * s1 - m1 * s2\<bar> < max s1 s2)
           (measurements s1) (measurements s2)"
proof -
  let ?ks = "[180, 200, 300, 280, 200, 20, 100, 50, 150, 200,
      544, 200, 280, 200, 20, 100, 50, 50,
      150, 600, 200, 150, 15, 75, 50, 125, 175] :: int list"
  have "\<bar>k * s2 div 1024 * s1 - k * s1 div 1024 * s2\<bar> < max s1 s2"
    if "k \<in> set ?ks" for k
  proof -
    from that have "0 \<le> k" by auto
    with assms(1,2) show ?thesis by (rule div_scaling)
  qed
  then have "list_all2 (\<lambda>m1 m2. \<bar>m2 * s1 - m1 * s2\<bar> < max s1 s2)
     (map (\<lambda>k. k * s1 div 1024) ?ks)
     (map (\<lambda>k. k * s2 div 1024) ?ks)"
    by (simp only: list_all2_map1 list_all2_map2 list_all2_same) blast
  moreover have "measurements s1 = map (\<lambda>k. k * s1 div 1024) ?ks"
    using assms(1) by (simp only: measurements_eq)
  moreover have "measurements s2 = map (\<lambda>k. k * s2 div 1024) ?ks"
    using assms(2) by (simp only: measurements_eq)
  ultimately show ?thesis by simp
qed

theorem scaling_relation_witness:
  "0 < (40::int) \<and> 0 < (1024::int) \<and> float_exact 40 \<and> float_exact 1024 \<and>
   list_all2 (\<lambda>m1 m2. \<bar>m2 * 40 - m1 * 1024\<bar> < max 40 1024)
     (measurements 40) (measurements 1024)"
  using scaling_relation [of 40 1024] by (simp add: float_exact_def)

subsection \<open>The batch\<close>




text \<open>
  Claim C9 says that two runs of \<^verbatim>\<open>main\<close> in succession, from a missing output directory,
  leave exactly nine files in it. Two runs from an empty working directory leave the
  output directory created and empty: each run ends with the \<open>NameError\<close> of its first
  render.
\<close>

theorem main_twice:
  "snd (main module_globals lib
          (snd (main module_globals lib \<lparr>dirs = [], files = [], stdout = []\<rparr>))) =
     \<lparr>dirs = [''Assets.xcassets'', ''Assets.xcassets/AppIcon.appiconset''], files = [],
      stdout = [''Generating icon-20@2x.png (40x40)...'',
                ''Generating icon-20@2x.png (40x40)...'']\<rparr>"
  by (simp add: main_def makedirs_empty makedirs_again sizes_def main_loop_module_Cons
      print_def str_int_40)

text \<open>
  Claim C10 says that the two entries of size 120, \<^verbatim>\<open>icon-40@3x.png\<close> and
  \<^verbatim>\<open>icon-60@2x.png\<close>, receive identical content in a run. A run over an output directory
  that holds the two files with different contents leaves both as they were, still
  different: neither entry is reached.
\<close>

theorem stale_files_stay:
  "files (snd (main module_globals no_pillow
     \<lparr>dirs = [''Assets.xcassets'', ''Assets.xcassets/AppIcon.appiconset''],
      files = [(''Assets.xcassets/AppIcon.appiconset/icon-40@3x.png'', ''old A''),
               (''Assets.xcassets/AppIcon.appiconset/icon-60@2x.png'', ''old B'')],
      stdout = []\<rparr>)) =
     [(''Assets.xcassets/AppIcon.appiconset/icon-40@3x.png'', ''old A''),
      (''Assets.xcassets/AppIcon.appiconset/icon-60@2x.png'', ''old B'')]"
  by (simp add: main_def makedirs_stale sizes_def main_loop_module_Cons)

end
